theory Spec2Isabelle
  imports Main "HOL-Library.Word"
begin

section \<open>RNTupleOptions.hxx: user-tunable settings for writing and reading ntuples\<close>

text \<open>
  Machine types of the header, on an LP64 platform: \<open>int\<close> is a 32-bit word read
  in two's complement (\<open>sint\<close>, and \<open>scast\<close> to widen it),
  \<open>std::size_t\<close> and \<open>std::uint64_t\<close> are unsigned 64-bit words, \<open>uint32_t\<close> and
  \<open>unsigned int\<close> are unsigned 32-bit words, \<open>std::string\<close> is a list of characters.
\<close>

type_synonym c_int = "32 word"
type_synonym size_t = "64 word"
type_synonym uint64_t = "64 word"
type_synonym uint32_t = "32 word"
type_synonym c_uint = "32 word"

subsection \<open>class RNTupleWriteOptions\<close>

record RNTupleWriteOptions =
  fCompression :: c_int
  fApproxZippedClusterSize :: size_t
  fMaxUnzippedClusterSize :: size_t
  fApproxUnzippedPageSize :: size_t
  fUseBufferedWrite :: bool
  fHasSmallClusters :: bool

text \<open>
  The default member initialisers. \<open>RCompressionSetting::EDefaults::kUseGeneralPurpose\<close>
  is declared in \<open>Compression.h\<close>, which the header only includes: its value is the
  parameter \<open>kUseGeneralPurpose\<close>. The size literals are products of \<open>int\<close> constants,
  converted to \<open>std::size_t\<close> afterwards.
\<close>

definition RNTupleWriteOptions_default :: "c_int \<Rightarrow> RNTupleWriteOptions" where
  "RNTupleWriteOptions_default kUseGeneralPurpose =
     \<lparr> fCompression = kUseGeneralPurpose,
       fApproxZippedClusterSize = scast (50 * 1000 * 1000 :: c_int),
       fMaxUnzippedClusterSize = scast (512 * 1024 * 1024 :: c_int),
       fApproxUnzippedPageSize = scast (64 * 1024 :: c_int),
       fUseBufferedWrite = True,
       fHasSmallClusters = False \<rparr>"

definition kMaxSmallClusterSize :: uint64_t where
  "kMaxSmallClusterSize = scast (512 * 1024 * 1024 :: c_int)"

text \<open>
  The accessors are written on the record scheme, so that they apply to an object of the
  derived class as well, the way inherited member functions do.
\<close>

definition GetCompression :: "'a RNTupleWriteOptions_scheme \<Rightarrow> c_int" where
  "GetCompression opts = fCompression opts"

definition SetCompression ::
  "c_int \<Rightarrow> 'a RNTupleWriteOptions_scheme \<Rightarrow> 'a RNTupleWriteOptions_scheme" where
  "SetCompression val opts = opts \<lparr> fCompression := val \<rparr>"

text \<open>
  The second overload calls \<open>CompressionSettings(algorithm, compressionLevel)\<close>, a function
  of \<open>Compression.h\<close>; it and the enumeration of algorithms are parameters here.
\<close>

definition SetCompression_algorithm ::
  "('alg \<Rightarrow> c_int \<Rightarrow> c_int) \<Rightarrow> 'alg \<Rightarrow> c_int \<Rightarrow>
   'a RNTupleWriteOptions_scheme \<Rightarrow> 'a RNTupleWriteOptions_scheme" where
  "SetCompression_algorithm CompressionSettings algorithm compressionLevel opts =
     opts \<lparr> fCompression := CompressionSettings algorithm compressionLevel \<rparr>"

definition GetApproxZippedClusterSize :: "'a RNTupleWriteOptions_scheme \<Rightarrow> size_t" where
  "GetApproxZippedClusterSize opts = fApproxZippedClusterSize opts"

definition GetMaxUnzippedClusterSize :: "'a RNTupleWriteOptions_scheme \<Rightarrow> size_t" where
  "GetMaxUnzippedClusterSize opts = fMaxUnzippedClusterSize opts"

definition GetApproxUnzippedPageSize :: "'a RNTupleWriteOptions_scheme \<Rightarrow> size_t" where
  "GetApproxUnzippedPageSize opts = fApproxUnzippedPageSize opts"

definition GetUseBufferedWrite :: "'a RNTupleWriteOptions_scheme \<Rightarrow> bool" where
  "GetUseBufferedWrite opts = fUseBufferedWrite opts"

definition SetUseBufferedWrite ::
  "bool \<Rightarrow> 'a RNTupleWriteOptions_scheme \<Rightarrow> 'a RNTupleWriteOptions_scheme" where
  "SetUseBufferedWrite val opts = opts \<lparr> fUseBufferedWrite := val \<rparr>"

definition GetHasSmallClusters :: "'a RNTupleWriteOptions_scheme \<Rightarrow> bool" where
  "GetHasSmallClusters opts = fHasSmallClusters opts"

definition SetHasSmallClusters ::
  "bool \<Rightarrow> 'a RNTupleWriteOptions_scheme \<Rightarrow> 'a RNTupleWriteOptions_scheme" where
  "SetHasSmallClusters val opts = opts \<lparr> fHasSmallClusters := val \<rparr>"

subsection \<open>class RNTupleWriteOptionsDaos : public RNTupleWriteOptions\<close>

record RNTupleWriteOptionsDaos = RNTupleWriteOptions +
  fObjectClass :: string
  fMaxCageSize :: uint32_t

text \<open>
  The base subobject is initialised first; \<open>fMaxCageSize\<close> is then computed from the
  base's \<open>fApproxUnzippedPageSize\<close>: the product is taken in \<open>std::size_t\<close> and
  narrowed to \<open>uint32_t\<close>.
\<close>

definition RNTupleWriteOptionsDaos_default :: "c_int \<Rightarrow> RNTupleWriteOptionsDaos" where
  "RNTupleWriteOptionsDaos_default kUseGeneralPurpose =
     (let base = RNTupleWriteOptions_default kUseGeneralPurpose in
      RNTupleWriteOptions.extend base
        \<lparr> fObjectClass = ''SX'',
          fMaxCageSize = ucast (16 * fApproxUnzippedPageSize base) \<rparr>)"

definition GetObjectClass :: "RNTupleWriteOptionsDaos \<Rightarrow> string" where
  "GetObjectClass opts = fObjectClass opts"

definition SetObjectClass :: "string \<Rightarrow> RNTupleWriteOptionsDaos \<Rightarrow> RNTupleWriteOptionsDaos" where
  "SetObjectClass val opts = opts \<lparr> fObjectClass := val \<rparr>"

definition GetMaxCageSize :: "RNTupleWriteOptionsDaos \<Rightarrow> uint32_t" where
  "GetMaxCageSize opts = fMaxCageSize opts"

definition SetMaxCageSize :: "uint32_t \<Rightarrow> RNTupleWriteOptionsDaos \<Rightarrow> RNTupleWriteOptionsDaos" where
  "SetMaxCageSize cageSz opts = opts \<lparr> fMaxCageSize := cageSz \<rparr>"

subsection \<open>class RNTupleReadOptions\<close>

text \<open>
  The enumeration has two enumerators with distinct values, \<open>kOff = 0\<close> and \<open>kOn = 1\<close>;
  \<open>kDefault\<close> is a third name for the value of \<open>kOn\<close>.
\<close>

datatype EClusterCache = kOff | kOn

definition kDefault :: EClusterCache where
  "kDefault = kOn"

fun EClusterCache_value :: "EClusterCache \<Rightarrow> int" where
  "EClusterCache_value kOff = 0"
| "EClusterCache_value kOn = 1"

record RNTupleReadOptions =
  fClusterCache :: EClusterCache
  fClusterBunchSize :: c_uint

definition RNTupleReadOptions_default :: RNTupleReadOptions where
  "RNTupleReadOptions_default = \<lparr> fClusterCache = kDefault, fClusterBunchSize = 1 \<rparr>"

definition GetClusterCache :: "RNTupleReadOptions \<Rightarrow> EClusterCache" where
  "GetClusterCache opts = fClusterCache opts"

definition SetClusterCache :: "EClusterCache \<Rightarrow> RNTupleReadOptions \<Rightarrow> RNTupleReadOptions" where
  "SetClusterCache val opts = opts \<lparr> fClusterCache := val \<rparr>"

definition GetClusterBunchSize :: "RNTupleReadOptions \<Rightarrow> c_uint" where
  "GetClusterBunchSize opts = fClusterBunchSize opts"

definition SetClusterBunchSize :: "c_uint \<Rightarrow> RNTupleReadOptions \<Rightarrow> RNTupleReadOptions" where
  "SetClusterBunchSize val opts = opts \<lparr> fClusterBunchSize := val \<rparr>"

subsection \<open>Objects on the heap and the virtual \<open>Clone\<close>\<close>

text \<open>
  An object carries its dynamic type. A reference or pointer to \<open>RNTupleWriteOptions\<close> is
  an address in the heap; the heap is the list of the objects allocated so far, and the
  address of an object is its position.
\<close>

datatype object =
    WriteOptions RNTupleWriteOptions
  | WriteOptionsDaos RNTupleWriteOptionsDaos

type_synonym addr = nat
type_synonym heap = "object list"

text \<open>
  The implicitly defined copy constructors copy member by member (the default member
  initialisers play no part in them).
\<close>

definition RNTupleWriteOptions_copy :: "'a RNTupleWriteOptions_scheme \<Rightarrow> RNTupleWriteOptions" where
  "RNTupleWriteOptions_copy other =
     \<lparr> fCompression = fCompression other,
       fApproxZippedClusterSize = fApproxZippedClusterSize other,
       fMaxUnzippedClusterSize = fMaxUnzippedClusterSize other,
       fApproxUnzippedPageSize = fApproxUnzippedPageSize other,
       fUseBufferedWrite = fUseBufferedWrite other,
       fHasSmallClusters = fHasSmallClusters other \<rparr>"

definition RNTupleWriteOptionsDaos_copy :: "RNTupleWriteOptionsDaos \<Rightarrow> RNTupleWriteOptionsDaos" where
  "RNTupleWriteOptionsDaos_copy other =
     RNTupleWriteOptions.extend (RNTupleWriteOptions_copy other)
       \<lparr> fObjectClass = fObjectClass other, fMaxCageSize = fMaxCageSize other \<rparr>"

text \<open>
  \<open>std::make_unique\<close> allocates a new object and returns the pointer that owns it.
\<close>

definition make_unique :: "heap \<Rightarrow> object \<Rightarrow> addr \<times> heap" where
  "make_unique h ob = (length h, h @ [ob])"

definition RNTupleWriteOptionsDaos_Clone :: "heap \<Rightarrow> RNTupleWriteOptionsDaos \<Rightarrow> addr \<times> heap" where
  "RNTupleWriteOptionsDaos_Clone h this =
     make_unique h (WriteOptionsDaos (RNTupleWriteOptionsDaos_copy this))"

text \<open>
  Modelled from the spec: the body of \<open>RNTupleWriteOptions::Clone\<close> is not in the header,
  which only declares it. The spec has it return a new, independently owned instance of
  the same dynamic type as the object it is called on, equal to it in all fields.
\<close>

definition RNTupleWriteOptions_Clone :: "heap \<Rightarrow> RNTupleWriteOptions \<Rightarrow> addr \<times> heap" where
  "RNTupleWriteOptions_Clone h this =
     make_unique h (WriteOptions (RNTupleWriteOptions_copy this))"

text \<open>
  A call of \<open>Clone()\<close> through a base-type reference \<open>p\<close>: the virtual call selects the
  override of the dynamic type. A reference to no object has no result.
\<close>

definition Clone :: "heap \<Rightarrow> addr \<Rightarrow> (addr \<times> heap) option" where
  "Clone h p =
     (if p < length h then
        (case h ! p of
           WriteOptions b \<Rightarrow> Some (RNTupleWriteOptions_Clone h b)
         | WriteOptionsDaos d \<Rightarrow> Some (RNTupleWriteOptionsDaos_Clone h d))
      else None)"

text \<open>
  \<open>dynamic_cast\<close> of a base-type reference to the derived class.
\<close>

fun dynamic_cast_Daos :: "object \<Rightarrow> RNTupleWriteOptionsDaos option" where
  "dynamic_cast_Daos (WriteOptionsDaos d) = Some d"
| "dynamic_cast_Daos (WriteOptions b) = None"

text \<open>
  A mutation of the object at address \<open>p\<close>, by any member function \<open>f\<close>.
\<close>

definition mutate :: "heap \<Rightarrow> addr \<Rightarrow> (object \<Rightarrow> object) \<Rightarrow> heap option" where
  "mutate h p f = (if p < length h then Some (h[p := f (h ! p)]) else None)"

text \<open>
  Two of the inline setters, called through a base-type reference.
\<close>

fun call_SetHasSmallClusters :: "bool \<Rightarrow> object \<Rightarrow> object" where
  "call_SetHasSmallClusters val (WriteOptions b) = WriteOptions (SetHasSmallClusters val b)"
| "call_SetHasSmallClusters val (WriteOptionsDaos d) = WriteOptionsDaos (SetHasSmallClusters val d)"

fun call_SetCompression :: "c_int \<Rightarrow> object \<Rightarrow> object" where
  "call_SetCompression val (WriteOptions b) = WriteOptions (SetCompression val b)"
| "call_SetCompression val (WriteOptionsDaos d) = WriteOptionsDaos (SetCompression val d)"

section \<open>Properties\<close>

subsection \<open>Defaults\<close>

text \<open>
  Claim C1. A default-constructed \<open>RNTupleWriteOptions\<close> has the documented defaults:
  the compression is the general-purpose default setting, the approximate zipped cluster
  size is 50,000,000, the maximum unzipped cluster size is 512 MiB, the approximate
  unzipped page size is 64 KiB, buffered writing is on and small clusters are off.
\<close>

theorem RNTupleWriteOptions_default_values:
  "GetCompression (RNTupleWriteOptions_default kUseGeneralPurpose) = kUseGeneralPurpose
   \<and> unat (GetApproxZippedClusterSize (RNTupleWriteOptions_default kUseGeneralPurpose)) = 50000000
   \<and> unat (GetMaxUnzippedClusterSize (RNTupleWriteOptions_default kUseGeneralPurpose))
       = 512 * 1024 * 1024
   \<and> unat (GetApproxUnzippedPageSize (RNTupleWriteOptions_default kUseGeneralPurpose)) = 64 * 1024
   \<and> GetUseBufferedWrite (RNTupleWriteOptions_default kUseGeneralPurpose) = True
   \<and> GetHasSmallClusters (RNTupleWriteOptions_default kUseGeneralPurpose) = False"
  by (simp add: RNTupleWriteOptions_default_def GetCompression_def
      GetApproxZippedClusterSize_def GetMaxUnzippedClusterSize_def
      GetApproxUnzippedPageSize_def GetUseBufferedWrite_def GetHasSmallClusters_def)

text \<open>
  Claim C6. A default-constructed \<open>RNTupleWriteOptionsDaos\<close> has the object class
  \<open>"SX"\<close> and a maximum cage size of 16 times the default approximate unzipped page
  size, which is 16 * 64 KiB = 1 MiB.
\<close>

theorem RNTupleWriteOptionsDaos_default_values:
  "GetObjectClass (RNTupleWriteOptionsDaos_default kUseGeneralPurpose) = ''SX''
   \<and> unat (GetMaxCageSize (RNTupleWriteOptionsDaos_default kUseGeneralPurpose))
       = 16 * unat (GetApproxUnzippedPageSize (RNTupleWriteOptions_default kUseGeneralPurpose))
   \<and> unat (GetMaxCageSize (RNTupleWriteOptionsDaos_default kUseGeneralPurpose)) = 16 * (64 * 1024)
   \<and> unat (GetMaxCageSize (RNTupleWriteOptionsDaos_default kUseGeneralPurpose)) = 1024 * 1024"
  by (simp add: RNTupleWriteOptionsDaos_default_def RNTupleWriteOptions_default_def
      GetObjectClass_def GetMaxCageSize_def GetApproxUnzippedPageSize_def
      RNTupleWriteOptions.extend_def)

text \<open>
  Claim C8. A default-constructed \<open>RNTupleReadOptions\<close> has the cluster cache on
  (\<open>kOn\<close>, the value that \<open>kDefault\<close> names) and a cluster bunch size of 1; on any
  \<open>RNTupleReadOptions\<close>, \<open>SetClusterCache(kOff)\<close> followed by \<open>GetClusterCache()\<close>
  returns \<open>kOff\<close>.
\<close>

theorem RNTupleReadOptions_default_and_cluster_cache:
  "GetClusterCache RNTupleReadOptions_default = kOn
   \<and> kOn = kDefault
   \<and> GetClusterBunchSize RNTupleReadOptions_default = 1
   \<and> GetClusterCache (SetClusterCache kOff opts) = kOff
   \<and> kOff \<noteq> kOn"
  by (simp add: RNTupleReadOptions_default_def kDefault_def GetClusterCache_def
      GetClusterBunchSize_def SetClusterCache_def)

subsection \<open>Setters and getters\<close>

text \<open>
  Claim C9. The two compression setters: \<open>SetCompression(int v)\<close> stores the raw packed
  setting, so that \<open>GetCompression()\<close> returns \<open>v\<close> afterwards; and
  \<open>SetCompression(algorithm, level)\<close> stores the value that \<open>CompressionSettings\<close>
  composes from the algorithm and the level, which \<open>GetCompression()\<close> then returns.
\<close>

theorem SetCompression_GetCompression:
  "GetCompression (SetCompression v opts) = v
   \<and> GetCompression (SetCompression_algorithm CompressionSettings algorithm level opts)
       = CompressionSettings algorithm level"
  by (simp add: GetCompression_def SetCompression_def SetCompression_algorithm_def)

text \<open>
  Claim C7. \<open>SetMaxCageSize\<close> accepts every \<open>uint32_t\<close> value, 0 and values below the
  configured approximate unzipped page size included: it does not reject the value, it
  changes no other field, and \<open>GetMaxCageSize\<close> returns the value that was set.
\<close>

theorem SetMaxCageSize_accepts_every_value:
  "GetMaxCageSize (SetMaxCageSize cageSz opts) = cageSz
   \<and> GetMaxCageSize (SetMaxCageSize 0 opts) = 0
   \<and> GetObjectClass (SetMaxCageSize cageSz opts) = GetObjectClass opts
   \<and> GetCompression (SetMaxCageSize cageSz opts) = GetCompression opts
   \<and> GetApproxZippedClusterSize (SetMaxCageSize cageSz opts) = GetApproxZippedClusterSize opts
   \<and> GetMaxUnzippedClusterSize (SetMaxCageSize cageSz opts) = GetMaxUnzippedClusterSize opts
   \<and> GetApproxUnzippedPageSize (SetMaxCageSize cageSz opts) = GetApproxUnzippedPageSize opts
   \<and> GetUseBufferedWrite (SetMaxCageSize cageSz opts) = GetUseBufferedWrite opts
   \<and> GetHasSmallClusters (SetMaxCageSize cageSz opts) = GetHasSmallClusters opts"
  by (simp add: SetMaxCageSize_def GetMaxCageSize_def GetObjectClass_def GetCompression_def
      GetApproxZippedClusterSize_def GetMaxUnzippedClusterSize_def
      GetApproxUnzippedPageSize_def GetUseBufferedWrite_def GetHasSmallClusters_def)

text \<open>
  Claim C10. \<open>SetObjectClass\<close> validates nothing: for every string, the empty string
  included, the call stores the string as it is, and \<open>GetObjectClass\<close> returns exactly
  that string afterwards.
\<close>

theorem SetObjectClass_stores_verbatim:
  "GetObjectClass (SetObjectClass val opts) = val
   \<and> GetObjectClass (SetObjectClass [] opts) = []
   \<and> GetMaxCageSize (SetObjectClass val opts) = GetMaxCageSize opts
   \<and> RNTupleWriteOptions.truncate (SetObjectClass val opts) = RNTupleWriteOptions.truncate opts"
  by (simp add: SetObjectClass_def GetObjectClass_def GetMaxCageSize_def
      RNTupleWriteOptions.truncate_def)

subsection \<open>Polymorphic duplication\<close>

lemma RNTupleWriteOptions_copy_same: "RNTupleWriteOptions_copy (b :: RNTupleWriteOptions) = b"
  by (simp add: RNTupleWriteOptions_copy_def)

lemma RNTupleWriteOptionsDaos_copy_same: "RNTupleWriteOptionsDaos_copy d = d"
  by (cases d) (simp add: RNTupleWriteOptionsDaos_copy_def RNTupleWriteOptions_copy_def
      RNTupleWriteOptions.extend_def)

lemma Clone_of_Daos:
  assumes "p < length h" and "h ! p = WriteOptionsDaos d"
  shows "Clone h p = Some (length h, h @ [WriteOptionsDaos d])"
  using assms
  by (simp add: Clone_def RNTupleWriteOptionsDaos_Clone_def make_unique_def
      RNTupleWriteOptionsDaos_copy_same)

lemma Clone_of_base:
  assumes "p < length h" and "h ! p = WriteOptions b"
  shows "Clone h p = Some (length h, h @ [WriteOptions b])"
  using assms
  by (simp add: Clone_def RNTupleWriteOptions_Clone_def make_unique_def
      RNTupleWriteOptions_copy_same)

lemma mutate_valid:
  assumes "p < length h"
  shows "mutate h p f = Some (h[p := f (h ! p)])"
  using assms by (simp add: mutate_def)

lemma mutate_appended:
  assumes "p < length h"
  shows "mutate (h @ [ob]) (length h) f = Some (h @ [f ob])"
    and "mutate (h @ [ob]) p g = Some (h[p := g (h ! p)] @ [ob])"
  using assms by (simp_all add: mutate_def nth_append list_update_append)

text \<open>
  Claim C2. For every \<open>RNTupleWriteOptionsDaos\<close> object, \<open>Clone()\<close> called through a
  base-type reference returns an independently owned copy: a newly allocated object, at an
  address that was not in use, whose dynamic type is \<open>RNTupleWriteOptionsDaos\<close> and which
  shows, through the derived interface, the object class, the maximum cage size and the
  inherited field values of the original. The objects allocated before are unchanged, and
  a later mutation of the copy leaves the original as it is, and the other way round.
\<close>

theorem Clone_Daos_through_base_reference:
  assumes "p < length h" and "h ! p = WriteOptionsDaos d"
  shows "\<exists>q h' d'. Clone h p = Some (q, h')
     \<and> q \<noteq> p \<and> \<not> q < length h \<and> q < length h'
     \<and> take (length h) h' = h
     \<and> h' ! p = WriteOptionsDaos d
     \<and> dynamic_cast_Daos (h' ! q) = Some d'
     \<and> GetObjectClass d' = GetObjectClass d
     \<and> GetMaxCageSize d' = GetMaxCageSize d
     \<and> GetCompression d' = GetCompression d
     \<and> GetApproxZippedClusterSize d' = GetApproxZippedClusterSize d
     \<and> GetMaxUnzippedClusterSize d' = GetMaxUnzippedClusterSize d
     \<and> GetApproxUnzippedPageSize d' = GetApproxUnzippedPageSize d
     \<and> GetUseBufferedWrite d' = GetUseBufferedWrite d
     \<and> GetHasSmallClusters d' = GetHasSmallClusters d
     \<and> d' = d
     \<and> (\<exists>h1. mutate h' q f = Some h1
            \<and> h1 ! p = WriteOptionsDaos d \<and> h1 ! q = f (WriteOptionsDaos d'))
     \<and> (\<exists>h2. mutate h' p g = Some h2
            \<and> h2 ! q = WriteOptionsDaos d' \<and> h2 ! p = g (WriteOptionsDaos d))"
proof -
  let ?q = "length h" and ?h' = "h @ [WriteOptionsDaos d]"
  have cl: "Clone h p = Some (?q, ?h')" by (rule Clone_of_Daos [OF assms])
  have old: "?h' ! p = WriteOptionsDaos d" using assms by (simp add: nth_append)
  have m1: "mutate ?h' ?q f = Some (h @ [f (WriteOptionsDaos d)])"
    by (rule mutate_appended(1) [OF assms(1)])
  have m2: "mutate ?h' p g = Some (h[p := g (h ! p)] @ [WriteOptionsDaos d])"
    by (rule mutate_appended(2) [OF assms(1)])
  have a1: "(h @ [f (WriteOptionsDaos d)]) ! p = WriteOptionsDaos d"
    using assms by (simp add: nth_append)
  have b1: "(h[p := g (h ! p)] @ [WriteOptionsDaos d]) ! ?q = WriteOptionsDaos d"
    by (simp add: nth_append)
  have b2: "(h[p := g (h ! p)] @ [WriteOptionsDaos d]) ! p = g (WriteOptionsDaos d)"
    using assms by (simp add: nth_append)
  show ?thesis
    apply (rule exI [of _ ?q], rule exI [of _ ?h'], rule exI [of _ d])
    using assms cl m1 m2 a1 b1 b2 old by simp
qed

theorem Clone_Daos_through_base_reference_witness:
  "1 < length [WriteOptions (RNTupleWriteOptions_default 101),
               WriteOptionsDaos (SetObjectClass ''RP_XSF''
                 (SetMaxCageSize 0 (RNTupleWriteOptionsDaos_default 101)))]
   \<and> [WriteOptions (RNTupleWriteOptions_default 101),
       WriteOptionsDaos (SetObjectClass ''RP_XSF''
         (SetMaxCageSize 0 (RNTupleWriteOptionsDaos_default 101)))] ! 1
      = WriteOptionsDaos (SetObjectClass ''RP_XSF''
          (SetMaxCageSize 0 (RNTupleWriteOptionsDaos_default 101)))
   \<and> (\<exists>q h' d'.
         Clone [WriteOptions (RNTupleWriteOptions_default 101),
                WriteOptionsDaos (SetObjectClass ''RP_XSF''
                  (SetMaxCageSize 0 (RNTupleWriteOptionsDaos_default 101)))] 1 = Some (q, h')
         \<and> q \<noteq> 1
         \<and> dynamic_cast_Daos (h' ! q) = Some d'
         \<and> GetObjectClass d' = ''RP_XSF''
         \<and> GetMaxCageSize d' = 0
         \<and> GetHasSmallClusters d' = False
         \<and> (\<exists>h1. mutate h' q (call_SetHasSmallClusters True) = Some h1
               \<and> map_option GetHasSmallClusters (dynamic_cast_Daos (h1 ! 1)) = Some False
               \<and> map_option GetHasSmallClusters (dynamic_cast_Daos (h1 ! q)) = Some True))"
proof -
  let ?d = "SetObjectClass ''RP_XSF'' (SetMaxCageSize 0 (RNTupleWriteOptionsDaos_default 101))"
  let ?h = "[WriteOptions (RNTupleWriteOptions_default 101), WriteOptionsDaos ?d]"
  have p1: "1 < length ?h" by simp
  have p2: "?h ! 1 = WriteOptionsDaos ?d" by simp
  have v1: "GetObjectClass ?d = ''RP_XSF''"
    by (simp add: GetObjectClass_def SetObjectClass_def)
  have v2: "GetMaxCageSize ?d = 0"
    by (simp add: GetMaxCageSize_def SetObjectClass_def SetMaxCageSize_def)
  have v3: "GetHasSmallClusters ?d = False"
    by (simp add: GetHasSmallClusters_def SetObjectClass_def SetMaxCageSize_def
        RNTupleWriteOptionsDaos_default_def RNTupleWriteOptions_default_def
        RNTupleWriteOptions.extend_def)
  have v4: "GetHasSmallClusters (SetHasSmallClusters True ?d) = True"
    by (simp add: GetHasSmallClusters_def SetHasSmallClusters_def)
  from Clone_Daos_through_base_reference [OF p1 p2, of "call_SetHasSmallClusters True" id]
  obtain q h' d' h1 where
    "Clone ?h 1 = Some (q, h')" "q \<noteq> 1" "dynamic_cast_Daos (h' ! q) = Some d'" "d' = ?d"
    "mutate h' q (call_SetHasSmallClusters True) = Some h1"
    "h1 ! 1 = WriteOptionsDaos ?d"
    "h1 ! q = call_SetHasSmallClusters True (WriteOptionsDaos d')"
    by blast
  then have "\<exists>q h' d'.
         Clone ?h 1 = Some (q, h')
         \<and> q \<noteq> 1
         \<and> dynamic_cast_Daos (h' ! q) = Some d'
         \<and> GetObjectClass d' = ''RP_XSF''
         \<and> GetMaxCageSize d' = 0
         \<and> GetHasSmallClusters d' = False
         \<and> (\<exists>h1. mutate h' q (call_SetHasSmallClusters True) = Some h1
               \<and> map_option GetHasSmallClusters (dynamic_cast_Daos (h1 ! 1)) = Some False
               \<and> map_option GetHasSmallClusters (dynamic_cast_Daos (h1 ! q)) = Some True)"
    using v1 v2 v3 v4
    by (intro exI [of _ q] exI [of _ h'] exI [of _ d'] exI [of _ h1]) simp
  with p1 p2 show ?thesis by (intro conjI)
qed

text \<open>
  Claim C3. For every \<open>RNTupleWriteOptions\<close> object, \<open>Clone()\<close> returns a new object
  that is equal to the original in every field (compression, approximate zipped cluster
  size, maximum unzipped cluster size, approximate unzipped page size, buffered writing,
  small clusters), and the two are independently mutable: a mutation of the clone leaves
  the original unchanged, and a mutation of the original leaves the clone unchanged.
\<close>

theorem Clone_base_equal_and_independent:
  assumes "p < length h" and "h ! p = WriteOptions b"
  shows "\<exists>q h' b'. Clone h p = Some (q, h')
     \<and> q \<noteq> p \<and> \<not> q < length h \<and> q < length h'
     \<and> take (length h) h' = h
     \<and> h' ! p = WriteOptions b
     \<and> h' ! q = WriteOptions b'
     \<and> GetCompression b' = GetCompression b
     \<and> GetApproxZippedClusterSize b' = GetApproxZippedClusterSize b
     \<and> GetMaxUnzippedClusterSize b' = GetMaxUnzippedClusterSize b
     \<and> GetApproxUnzippedPageSize b' = GetApproxUnzippedPageSize b
     \<and> GetUseBufferedWrite b' = GetUseBufferedWrite b
     \<and> GetHasSmallClusters b' = GetHasSmallClusters b
     \<and> b' = b
     \<and> (\<exists>h1. mutate h' q f = Some h1
            \<and> h1 ! p = WriteOptions b \<and> h1 ! q = f (WriteOptions b'))
     \<and> (\<exists>h2. mutate h' p g = Some h2
            \<and> h2 ! q = WriteOptions b' \<and> h2 ! p = g (WriteOptions b))"
proof -
  let ?q = "length h" and ?h' = "h @ [WriteOptions b]"
  have cl: "Clone h p = Some (?q, ?h')" by (rule Clone_of_base [OF assms])
  have old: "?h' ! p = WriteOptions b" using assms by (simp add: nth_append)
  have m1: "mutate ?h' ?q f = Some (h @ [f (WriteOptions b)])"
    by (rule mutate_appended(1) [OF assms(1)])
  have m2: "mutate ?h' p g = Some (h[p := g (h ! p)] @ [WriteOptions b])"
    by (rule mutate_appended(2) [OF assms(1)])
  have a1: "(h @ [f (WriteOptions b)]) ! p = WriteOptions b"
    using assms by (simp add: nth_append)
  have b1: "(h[p := g (h ! p)] @ [WriteOptions b]) ! ?q = WriteOptions b"
    by (simp add: nth_append)
  have b2: "(h[p := g (h ! p)] @ [WriteOptions b]) ! p = g (WriteOptions b)"
    using assms by (simp add: nth_append)
  show ?thesis
    apply (rule exI [of _ ?q], rule exI [of _ ?h'], rule exI [of _ b])
    using assms cl m1 m2 a1 b1 b2 old by simp
qed

theorem Clone_base_equal_and_independent_witness:
  "0 < length [WriteOptions (SetUseBufferedWrite False (RNTupleWriteOptions_default 101))]
   \<and> [WriteOptions (SetUseBufferedWrite False (RNTupleWriteOptions_default 101))] ! 0
      = WriteOptions (SetUseBufferedWrite False (RNTupleWriteOptions_default 101))
   \<and> (\<exists>q h' b'.
         Clone [WriteOptions (SetUseBufferedWrite False (RNTupleWriteOptions_default 101))] 0
           = Some (q, h')
         \<and> q \<noteq> 0
         \<and> h' ! q = WriteOptions b'
         \<and> GetUseBufferedWrite b' = False
         \<and> GetCompression b' = 101
         \<and> (\<exists>h1. mutate h' q (call_SetCompression 505) = Some h1
               \<and> h1 ! 0 = WriteOptions (SetUseBufferedWrite False (RNTupleWriteOptions_default 101))
               \<and> h1 ! q = WriteOptions (SetCompression 505 b'))
         \<and> (\<exists>h2. mutate h' 0 (call_SetCompression 404) = Some h2
               \<and> h2 ! q = WriteOptions b'
               \<and> h2 ! 0 = WriteOptions (SetCompression 404
                    (SetUseBufferedWrite False (RNTupleWriteOptions_default 101)))))"
proof -
  let ?b = "SetUseBufferedWrite False (RNTupleWriteOptions_default 101)"
  let ?h = "[WriteOptions ?b]"
  have p1: "0 < length ?h" by simp
  have p2: "?h ! 0 = WriteOptions ?b" by simp
  have v1: "GetUseBufferedWrite ?b = False"
    by (simp add: GetUseBufferedWrite_def SetUseBufferedWrite_def)
  have v2: "GetCompression ?b = 101"
    by (simp add: GetCompression_def SetUseBufferedWrite_def RNTupleWriteOptions_default_def)
  from Clone_base_equal_and_independent
         [OF p1 p2, of "call_SetCompression 505" "call_SetCompression 404"]
  obtain q h' b' h1 h2 where
    "Clone ?h 0 = Some (q, h')" "q \<noteq> 0" "h' ! q = WriteOptions b'" "b' = ?b"
    "mutate h' q (call_SetCompression 505) = Some h1"
    "h1 ! 0 = WriteOptions ?b"
    "h1 ! q = call_SetCompression 505 (WriteOptions b')"
    "mutate h' 0 (call_SetCompression 404) = Some h2"
    "h2 ! q = WriteOptions b'"
    "h2 ! 0 = call_SetCompression 404 (WriteOptions ?b)"
    by blast
  then have "\<exists>q h' b'.
         Clone ?h 0 = Some (q, h')
         \<and> q \<noteq> 0
         \<and> h' ! q = WriteOptions b'
         \<and> GetUseBufferedWrite b' = False
         \<and> GetCompression b' = 101
         \<and> (\<exists>h1. mutate h' q (call_SetCompression 505) = Some h1
               \<and> h1 ! 0 = WriteOptions ?b
               \<and> h1 ! q = WriteOptions (SetCompression 505 b'))
         \<and> (\<exists>h2. mutate h' 0 (call_SetCompression 404) = Some h2
               \<and> h2 ! q = WriteOptions b'
               \<and> h2 ! 0 = WriteOptions (SetCompression 404 ?b))"
    using v1 v2
    by (intro exI [of _ q] exI [of _ h'] exI [of _ b']) (simp del: One_nat_def)
  with p1 p2 show ?thesis by (intro conjI)
qed

end
